theory Spec2Isabelle
  imports Complex_Main "HOL-Library.Product_Lexorder" "HOL-Library.Sublist"
begin

section \<open>Crisp.nl product scraper: a shallow embedding of \<^verbatim>\<open>src/scrape.py\<close>\<close>

text \<open>
  Conventions of the embedding.
  \<^item> A Python \<^verbatim>\<open>str\<close> is a \<^typ>\<open>string\<close> holding its UTF-8 bytes; the euro sign is
    the three bytes \<^verbatim>\<open>E2 82 AC\<close>. The digit class \<^verbatim>\<open>\d\<close> and \<^verbatim>\<open>lower()\<close> are
    modelled on ASCII; digits and capital letters beyond ASCII are not modelled.
  \<^item> A Python \<^verbatim>\<open>float\<close> obtained from a decimal token is the exact rational value
    of the token; binary rounding, overflow and underflow are not modelled.
  \<^item> An exception that leaves a function is a value \<open>Inl e\<close> of \<open>error + 'a\<close>.
  \<^item> The libraries \<^verbatim>\<open>requests\<close>, \<^verbatim>\<open>bs4\<close> and \<^verbatim>\<open>json\<close> are outside the source; a
    page, an element and a script block are records of what the code reads from them.
\<close>

subsection \<open>Data model\<close>

datatype error = TypeError | ValueError | KeyError

text \<open>
  A dictionary entry that the code may store \<^verbatim>\<open>None\<close> under: the key is absent, holds
  \<^verbatim>\<open>None\<close>, or holds a value.
\<close>

datatype 'a field = Absent | Null | Val 'a

text \<open>
  The product dictionary. Every key the code ever writes is a field; \<open>None\<close> is an absent
  key. \<^verbatim>\<open>description\<close> is the one key of a retained product that can hold \<^verbatim>\<open>None\<close>
  (a JSON-LD block without a description, line 168).
\<close>

record product =
  title :: "string option"
  description :: "string field"
  price :: "rat option"
  sale_price :: "rat option"
  original_price :: "rat option"
  discount_percentage :: "int option"
  image_url :: "string option"
  link :: "string option"
  on_sale :: "bool option"
  source :: "string option"

definition empty_product :: product where
  "empty_product =
     \<lparr>title = None, description = Absent, price = None, sale_price = None,
      original_price = None, discount_percentage = None, image_url = None, link = None,
      on_sale = None, source = None\<rparr>"

text \<open>Truth values of Python: a string is true when not empty, a float when not zero.\<close>

definition truthy_str :: "string option \<Rightarrow> bool" where
  "truthy_str v = (case v of None \<Rightarrow> False | Some s \<Rightarrow> s \<noteq> [])"

definition truthy_num :: "rat option \<Rightarrow> bool" where
  "truthy_num v = (case v of None \<Rightarrow> False | Some r \<Rightarrow> r \<noteq> 0)"

subsection \<open>Strings and the two regular expressions\<close>

definition euro :: string where
  "euro = [CHR 0xE2, CHR 0x82, CHR 0xAC]"

definition is_digit :: "char \<Rightarrow> bool" where
  "is_digit c = (c \<in> set ''0123456789'')"

definition digit_val :: "char \<Rightarrow> nat" where
  "digit_val c = of_char c - 48"

definition nat_of_digits :: "string \<Rightarrow> nat" where
  "nat_of_digits ds = foldl (\<lambda>n c. 10 * n + digit_val c) 0 ds"

definition lower_char :: "char \<Rightarrow> char" where
  "lower_char c =
     (case map_of (zip ''ABCDEFGHIJKLMNOPQRSTUVWXYZ'' ''abcdefghijklmnopqrstuvwxyz'') c of
        None \<Rightarrow> c | Some l \<Rightarrow> l)"

definition lower :: "string \<Rightarrow> string" where
  "lower s = map lower_char s"

text \<open>\<^verbatim>\<open>sub in s\<close> on strings.\<close>

fun contains :: "string \<Rightarrow> string \<Rightarrow> bool" where
  "contains sub [] = (sub = [])"
| "contains sub (c # cs) = (take (length sub) (c # cs) = sub \<or> contains sub cs)"

text \<open>\<^verbatim>\<open>s.replace(old, new)\<close> for a non-empty \<open>old\<close>: left to right, not overlapping.\<close>

fun replace :: "string \<Rightarrow> string \<Rightarrow> string \<Rightarrow> string" where
  "replace old new [] = []"
| "replace old new (c # cs) =
     (if old \<noteq> [] \<and> take (length old) (c # cs) = old
      then new @ replace old new (drop (length old) (c # cs))
      else c # replace old new cs)"

text \<open>
  \<^verbatim>\<open>\d+[,.]?\d*\<close> matched at the start of a string. Every part is greedy and nothing
  follows, so the first attempt of the matcher succeeds whenever a digit is there.
\<close>

definition match_price :: "string \<Rightarrow> string option" where
  "match_price s =
     (let ds = takeWhile is_digit s; r = dropWhile is_digit s in
      if ds = [] then None
      else (case r of
              [] \<Rightarrow> Some ds
            | c # r' \<Rightarrow>
                if c = CHR '','' \<or> c = CHR ''.'' then Some (ds @ c # takeWhile is_digit r')
                else Some ds))"

text \<open>\<^verbatim>\<open>re.search\<close>: the match at the leftmost position that has one.\<close>

fun search_price :: "string \<Rightarrow> string option" where
  "search_price [] = None"
| "search_price (c # cs) =
     (case match_price (c # cs) of Some g \<Rightarrow> Some g | None \<Rightarrow> search_price cs)"

text \<open>
  \<^verbatim>\<open>(\d+)%\<close> matched at the start of a string. \<^verbatim>\<open>\d+\<close> takes every digit first and
  gives digits back one at a time until a percent sign follows; the result is group 1.
\<close>

definition match_discount :: "string \<Rightarrow> string option" where
  "match_discount s =
     (case find (\<lambda>k. k < length s \<and> s ! k = CHR ''%'')
             (rev [1..<Suc (length (takeWhile is_digit s))]) of
        None \<Rightarrow> None
      | Some k \<Rightarrow> Some (take k s))"

fun search_discount :: "string \<Rightarrow> string option" where
  "search_discount [] = None"
| "search_discount (c # cs) =
     (case match_discount (c # cs) of Some g \<Rightarrow> Some g | None \<Rightarrow> search_discount cs)"

text \<open>
  \<^verbatim>\<open>float(token)\<close> on the tokens \<^verbatim>\<open>\d+[,.]?\d*\<close> can return: digits, then an optional
  period and digits. A comma makes \<^verbatim>\<open>float\<close> raise ValueError, which is \<open>None\<close> here.
\<close>

definition py_float :: "string \<Rightarrow> rat option" where
  "py_float tok =
     (let ip = takeWhile is_digit tok; r = dropWhile is_digit tok in
      if ip = [] then None
      else (case r of
              [] \<Rightarrow> Some (of_nat (nat_of_digits ip))
            | c # fp \<Rightarrow>
                if c = CHR ''.'' \<and> list_all is_digit fp
                then Some (of_nat (nat_of_digits ip) + of_nat (nat_of_digits fp) / 10 ^ length fp)
                else None))"

subsection \<open>Field parser\<close>

text \<open>\<^verbatim>\<open>extract_price\<close>, lines 50-59.\<close>

definition extract_price :: "string \<Rightarrow> error + rat option" where
  "extract_price price_text =
     (if price_text = [] then Inr None
      else (case search_price (replace '','' ''.'' (replace euro [] price_text)) of
              None \<Rightarrow> Inr None
            | Some g \<Rightarrow> (case py_float g of None \<Rightarrow> Inl ValueError | Some r \<Rightarrow> Inr (Some r))))"

text \<open>\<^verbatim>\<open>is_on_sale\<close>, lines 61-86. The dictionary is changed in place at line 74, so the
  model returns the product together with the answer.\<close>

definition sale_keywords :: "string list" where
  "sale_keywords =
     [''korting'', ''sale'', ''aanbieding'', ''actie'', ''voordeel'',
      ''nu voor'', ''was'', ''bespaar'', ''nu'', ''%'']"

text \<open>
  Line 63. \<^verbatim>\<open>product.get('description', '')\<close> is the empty string for an absent key
  only: under a key that holds \<^verbatim>\<open>None\<close> it is \<^verbatim>\<open>None\<close>, and adding it to a string
  raises TypeError.
\<close>

definition text_lower :: "product \<Rightarrow> error + string" where
  "text_lower product =
     (let t = (case title product of None \<Rightarrow> [] | Some s \<Rightarrow> s) in
      case description product of
        Absent \<Rightarrow> Inr (lower (t @ '' '' @ []))
      | Val d \<Rightarrow> Inr (lower (t @ '' '' @ d))
      | Null \<Rightarrow> Inl TypeError)"

definition is_on_sale :: "product \<Rightarrow> error + (bool \<times> product)" where
  "is_on_sale product =
     (case text_lower product of
        Inl e \<Rightarrow> Inl e
      | Inr text \<Rightarrow>
          (case search_discount text of
             Some g \<Rightarrow>
               Inr (True, product\<lparr>discount_percentage := Some (int (nat_of_digits g))\<rparr>)
           | None \<Rightarrow>
               if list_ex (\<lambda>keyword. contains keyword text) sale_keywords
               then Inr (True, product)
               else if truthy_num (original_price product) \<and> truthy_num (sale_price product)
               then Inr (True, product)
               else Inr (False, product)))"

subsection \<open>Extractor: one container element\<close>

text \<open>
  What \<^verbatim>\<open>scrape_product_from_element\<close> reads from a container: the stripped text of the
  title element (line 99), the stripped texts of \<^verbatim>\<open>price_elements\<close> in their order
  (lines 102-111), the text of the description element (line 129), and the image and
  link addresses after \<^verbatim>\<open>urljoin\<close> (lines 136, 141); \<open>None\<close> where the element found
  nothing.
\<close>

record element =
  title_text :: "string option"
  price_texts :: "string list"
  desc_text :: "string option"
  img_url :: "string option"
  link_url :: "string option"

text \<open>The loop of lines 107-116.\<close>

fun collect_prices :: "string list \<Rightarrow> rat list \<Rightarrow> error + rat list" where
  "collect_prices [] prices = Inr prices"
| "collect_prices (price_text # rest) prices =
     (if contains euro price_text
      then (case extract_price price_text of
              Inl e \<Rightarrow> Inl e
            | Inr None \<Rightarrow> collect_prices rest prices
            | Inr (Some p) \<Rightarrow>
                if p \<noteq> 0 then collect_prices rest (prices @ [p])
                else collect_prices rest prices)
      else collect_prices rest prices)"

text \<open>Lines 118-124: \<^verbatim>\<open>min\<close> and \<^verbatim>\<open>max\<close> run over the list from its first element.\<close>

definition assign_prices :: "rat list \<Rightarrow> product \<Rightarrow> product" where
  "assign_prices prices product =
     (case prices of
        [] \<Rightarrow> product
      | [p] \<Rightarrow> product\<lparr>price := Some p\<rparr>
      | p # ps \<Rightarrow>
          product\<lparr>sale_price := Some (fold min ps p), original_price := Some (fold max ps p)\<rparr>)"

text \<open>Lines 88-147. An exception inside the \<^verbatim>\<open>try\<close> makes the function return None.\<close>

definition scrape_product_from_element :: "element \<Rightarrow> product option" where
  "scrape_product_from_element element =
     (case collect_prices (price_texts element) [] of
        Inl e \<Rightarrow> None
      | Inr prices \<Rightarrow>
          (let product = assign_prices prices (empty_product\<lparr>title := title_text element\<rparr>);
               product = product\<lparr>description :=
                           (case desc_text element of None \<Rightarrow> Absent | Some d \<Rightarrow> Val d)\<rparr>;
               product = product\<lparr>image_url := img_url element, link := link_url element\<rparr>
           in if truthy_str (title product) \<and>
                 (truthy_num (price product) \<or> truthy_num (sale_price product))
              then Some product else None))"

subsection \<open>Extractor: one page\<close>

text \<open>
  A \<^verbatim>\<open>application/ld+json\<close> script block, by what lines 164-169 meet in it.
  \<open>NoString\<close>: \<^verbatim>\<open>script.string\<close> is None (an empty block), so \<^verbatim>\<open>json.loads\<close> raises
  TypeError. \<open>Invalid\<close>: \<^verbatim>\<open>json.loads\<close> raises JSONDecodeError. \<open>NonDict\<close>: the text
  parses to something that is not a dictionary. \<open>Dict\<close>: a dictionary, with its
  \<^verbatim>\<open>@type\<close>, \<^verbatim>\<open>name\<close> and \<^verbatim>\<open>description\<close> (\<open>None\<close> when the key is absent or null;
  values that are not strings are not modelled) and its \<^verbatim>\<open>offers\<close>: absent, a
  dictionary (with \<^verbatim>\<open>str\<close> of what it holds under \<^verbatim>\<open>price\<close>, if anything), or any
  other value, on which \<^verbatim>\<open>.get\<close> raises AttributeError.
\<close>

datatype offers = NoOffers | OffersDict "string option" | OffersOther

record ld_dict =
  ld_type :: "string option"
  ld_name :: "string option"
  ld_description :: "string option"
  ld_offers :: offers

datatype ld_script = NoString | Invalid | NonDict | Dict ld_dict

text \<open>
  Lines 166-174 for a dictionary of type Product, given the text that \<^verbatim>\<open>str\<close> makes of
  its price entry: the product to append, if any. A ValueError would not be caught.
\<close>

definition json_ld_record :: "string \<Rightarrow> ld_dict \<Rightarrow> string \<Rightarrow> error + product option" where
  "json_ld_record url data price_text =
     (case extract_price price_text of
        Inl e \<Rightarrow> Inl e
      | Inr p \<Rightarrow>
          (let product = empty_product
                 \<lparr>title := ld_name data,
                  description := (case ld_description data of None \<Rightarrow> Null | Some d \<Rightarrow> Val d),
                  price := p, link := Some url, source := Some ''json-ld''\<rparr>
           in if truthy_str (title product) \<and> truthy_num (price product)
              then Inr (Some product) else Inr None))"

text \<open>
  Line 169: \<^verbatim>\<open>data.get('offers', {}).get('price', '')\<close>. The AttributeError of offers
  that are no dictionary is caught at line 175, and the block is left.
\<close>

definition json_ld_product :: "string \<Rightarrow> ld_dict \<Rightarrow> error + product option" where
  "json_ld_product url data =
     (case ld_offers data of
        OffersOther \<Rightarrow> Inr None
      | NoOffers \<Rightarrow> json_ld_record url data []
      | OffersDict None \<Rightarrow> json_ld_record url data []
      | OffersDict (Some s) \<Rightarrow> json_ld_record url data s)"

text \<open>The loop of lines 162-176. Only JSONDecodeError and AttributeError are caught.\<close>

fun scan_json_ld :: "string \<Rightarrow> ld_script list \<Rightarrow> product list \<Rightarrow> error + product list" where
  "scan_json_ld url [] products = Inr products"
| "scan_json_ld url (script # scripts) products =
     (case script of
        NoString \<Rightarrow> Inl TypeError
      | Invalid \<Rightarrow> scan_json_ld url scripts products
      | NonDict \<Rightarrow> scan_json_ld url scripts products
      | Dict data \<Rightarrow>
          if ld_type data = Some ''Product''
          then (case json_ld_product url data of
                  Inl e \<Rightarrow> Inl e
                | Inr None \<Rightarrow> scan_json_ld url scripts products
                | Inr (Some product) \<Rightarrow> scan_json_ld url scripts (products @ [product]))
          else scan_json_ld url scripts products)"

text \<open>The parsed page: its JSON-LD script blocks (line 161) and \<^verbatim>\<open>soup.select\<close>.\<close>

record page =
  json_scripts :: "ld_script list"
  soup_select :: "string \<Rightarrow> element list"

definition product_selectors :: "string list" where
  \<open>product_selectors =
     [''[class*="product"]'', ''[class*="item"]'', ''[data-testid*="product"]'',
      ''article'', ''.card'', ''[class*="tile"]'']\<close>

text \<open>The loop of lines 194-197.\<close>

fun scrape_elements :: "element list \<Rightarrow> product list \<Rightarrow> product list" where
  "scrape_elements [] products = products"
| "scrape_elements (element # elements) products =
     (case scrape_product_from_element element of
        None \<Rightarrow> scrape_elements elements products
      | Some product \<Rightarrow> scrape_elements elements (products @ [product]))"

text \<open>
  The loop of lines 190-200, with the selectors handed to \<^verbatim>\<open>soup.select\<close> so far as a
  second result.
\<close>

fun selector_cascade ::
  "page \<Rightarrow> string list \<Rightarrow> product list \<Rightarrow> string list \<Rightarrow> product list \<times> string list" where
  "selector_cascade soup [] products tried = (products, tried)"
| "selector_cascade soup (selector # selectors) products tried =
     (let elements = soup_select soup selector in
      if elements \<noteq> []
      then (let products' = scrape_elements (take 10 elements) products in
            if products' \<noteq> [] then (products', tried @ [selector])
            else selector_cascade soup selectors products' (tried @ [selector]))
      else selector_cascade soup selectors products (tried @ [selector]))"

subsection \<open>Fetcher\<close>

text \<open>
  One call of \<^verbatim>\<open>session.get\<close> followed by \<^verbatim>\<open>raise_for_status\<close> gives a response or
  raises a RequestException. The network is the outcome of each attempt, by its number.
\<close>

datatype attempt = Response page | RequestException

text \<open>
  \<^verbatim>\<open>get_page\<close>, lines 35-48: the loop over \<^verbatim>\<open>range(retries)\<close>. The second result counts
  the calls of \<^verbatim>\<open>session.get\<close>. The sleeps are not modelled.
\<close>

fun get_page_loop :: "(nat \<Rightarrow> attempt) \<Rightarrow> nat \<Rightarrow> nat list \<Rightarrow> nat \<Rightarrow> page option \<times> nat" where
  "get_page_loop net retries [] calls = (None, calls)"
| "get_page_loop net retries (attempt # rest) calls =
     (case net attempt of
        Response response \<Rightarrow> (Some response, Suc calls)
      | RequestException \<Rightarrow>
          if attempt < retries - 1 then get_page_loop net retries rest (Suc calls)
          else (None, Suc calls))"

definition get_page :: "(nat \<Rightarrow> attempt) \<Rightarrow> nat \<Rightarrow> page option \<times> nat" where
  "get_page net retries = get_page_loop net retries [0..<retries] 0"

text \<open>\<^verbatim>\<open>scrape_products_page\<close>, lines 149-202, with the selectors tried.\<close>

definition scrape_products_page ::
  "(nat \<Rightarrow> attempt) \<Rightarrow> string \<Rightarrow> error + (product list \<times> string list)" where
  "scrape_products_page net url =
     (case fst (get_page net 3) of
        None \<Rightarrow> Inr ([], [])
      | Some soup \<Rightarrow>
          (case scan_json_ld url (json_scripts soup) [] of
             Inl e \<Rightarrow> Inl e
           | Inr products \<Rightarrow>
               if products = [] then Inr (selector_cascade soup product_selectors products [])
               else Inr (products, [])))"

subsection \<open>Aggregator\<close>

text \<open>
  \<^verbatim>\<open>scrape_all_products\<close>, lines 231-258. The addresses are what
  \<^verbatim>\<open>find_product_pages\<close> returned; \<open>net url\<close> is the network as the loop meets it at
  \<open>url\<close>.
\<close>

fun scrape_pages ::
  "(string \<Rightarrow> nat \<Rightarrow> attempt) \<Rightarrow> string list \<Rightarrow> product list \<Rightarrow> error + product list" where
  "scrape_pages net [] all_products = Inr all_products"
| "scrape_pages net (url # urls) all_products =
     (case scrape_products_page (net url) url of
        Inl e \<Rightarrow> Inl e
      | Inr (products, tried) \<Rightarrow> scrape_pages net urls (all_products @ products))"

text \<open>The loop of lines 248-253; \<^verbatim>\<open>product['title']\<close> raises KeyError on an absent key.\<close>

fun remove_duplicates ::
  "product list \<Rightarrow> string set \<Rightarrow> product list \<Rightarrow> error + product list" where
  "remove_duplicates [] seen_titles unique_products = Inr unique_products"
| "remove_duplicates (product # rest) seen_titles unique_products =
     (case title product of
        None \<Rightarrow> Inl KeyError
      | Some t \<Rightarrow>
          if t \<notin> seen_titles
          then remove_duplicates rest (insert t seen_titles) (unique_products @ [product])
          else remove_duplicates rest seen_titles unique_products)"

definition scrape_all_products ::
  "(string \<Rightarrow> nat \<Rightarrow> attempt) \<Rightarrow> string list \<Rightarrow> error + product list" where
  "scrape_all_products net urls =
     (case scrape_pages net urls [] of
        Inl e \<Rightarrow> Inl e
      | Inr all_products \<Rightarrow> remove_duplicates all_products {} [])"

subsection \<open>Reporter\<close>

text \<open>The loop of lines 267-270.\<close>

fun classify :: "product list \<Rightarrow> product list \<Rightarrow> error + product list" where
  "classify [] sale_products = Inr sale_products"
| "classify (product # rest) sale_products =
     (case is_on_sale product of
        Inl e \<Rightarrow> Inl e
      | Inr (b, product') \<Rightarrow>
          if b then classify rest (sale_products @ [product'\<lparr>on_sale := Some True\<rparr>])
          else classify rest sale_products)"

text \<open>The key of line 273.\<close>

definition sale_key :: "product \<Rightarrow> int \<times> rat" where
  "sale_key x =
     (- (case discount_percentage x of None \<Rightarrow> 0 | Some d \<Rightarrow> d),
      (case price x of
         Some p \<Rightarrow> p
       | None \<Rightarrow> (case sale_price x of Some s \<Rightarrow> s | None \<Rightarrow> 999)))"

text \<open>
  \<^verbatim>\<open>find_sale_products\<close>, lines 260-275, on \<^verbatim>\<open>self.products\<close>. \<^verbatim>\<open>list.sort\<close> is a stable
  sort by the key, as \<^const>\<open>sort_key\<close> is.
\<close>

definition find_sale_products ::
  "(string \<Rightarrow> nat \<Rightarrow> attempt) \<Rightarrow> string list \<Rightarrow> product list \<Rightarrow> error + product list" where
  "find_sale_products net urls products =
     (case (if products = [] then scrape_all_products net urls else Inr products) of
        Inl e \<Rightarrow> Inl e
      | Inr ps \<Rightarrow>
          (case classify ps [] of
             Inl e \<Rightarrow> Inl e
           | Inr sale_products \<Rightarrow> Inr (sort_key sale_key sale_products)))"

subsection \<open>Reference definitions for the price parser\<close>

text \<open>
  The first numeric token of a text, read off the specification: skip to the first digit,
  take the digits, then one comma or period and the digits after it, if there.
\<close>

definition first_token :: "string \<Rightarrow> string" where
  "first_token s =
     (let d = dropWhile (\<lambda>c. \<not> is_digit c) s;
          ip = takeWhile is_digit d; r = dropWhile is_digit d in
      case r of
        [] \<Rightarrow> ip
      | c # r' \<Rightarrow> if c = CHR '','' \<or> c = CHR ''.'' then ip @ c # takeWhile is_digit r' else ip)"

text \<open>The decimal value of a token: its integer part plus its fraction.\<close>

definition decimal_value :: "string \<Rightarrow> rat" where
  "decimal_value tok =
     (let ip = takeWhile is_digit tok; fp = drop (Suc (length ip)) tok in
      of_nat (nat_of_digits ip) + of_nat (nat_of_digits fp) / 10 ^ length fp)"

subsection \<open>Reference definitions for the extractor\<close>






text \<open>The records that the first ten elements matching a selector yield (lines 191-197).\<close>

definition selector_records :: "page \<Rightarrow> string \<Rightarrow> product list" where
  "selector_records soup selector = scrape_elements (take 10 (soup_select soup selector)) []"

subsection \<open>Reference definitions for the sale classifier\<close>

text \<open>
  The text the classifier reads: title, a space and description in lower case, where an
  absent title and an absent description count as empty.
\<close>

definition combined_text :: "product \<Rightarrow> string" where
  "combined_text p =
     lower ((case title p of None \<Rightarrow> [] | Some s \<Rightarrow> s) @ '' '' @
            (case description p of Val d \<Rightarrow> d | _ \<Rightarrow> []))"

text \<open>
  One pass over a text for the first run of digits directly followed by a percent sign;
  \<open>run\<close> holds the digits read since the last character that is no digit.
\<close>

fun scan_percent :: "string \<Rightarrow> string \<Rightarrow> string option" where
  "scan_percent run [] = None"
| "scan_percent run (c # cs) =
     (if is_digit c then scan_percent (run @ [c]) cs
      else if c = CHR ''%'' \<and> run \<noteq> [] then Some run
      else scan_percent [] cs)"

text \<open>The integer of that run.\<close>

definition first_percentage :: "string \<Rightarrow> int option" where
  "first_percentage text = map_option (\<lambda>g. int (nat_of_digits g)) (scan_percent [] text)"

subsection \<open>Reference definitions for the reporter\<close>

text \<open>
  What the classifier answers on a record and what it makes of the record; on a record
  on which it raises, no answer.
\<close>

definition verdict :: "product \<Rightarrow> bool \<times> product" where
  "verdict p = (case is_on_sale p of Inl e \<Rightarrow> (False, p) | Inr r \<Rightarrow> r)"


subsection \<open>Example inputs\<close>

text \<open>A container with a title and one price.\<close>

definition priced_element :: element where
  "priced_element =
     \<lparr>title_text = Some ''Halfvolle melk'', price_texts = [euro @ ''1,19''], desc_text = None,
      img_url = None, link_url = None\<rparr>"




text \<open>A container with a price and no title: it yields no record.\<close>

definition no_title_element :: element where
  "no_title_element =
     \<lparr>title_text = None, price_texts = [euro @ ''2,49''], desc_text = None, img_url = None,
      link_url = None\<rparr>"

text \<open>The JSON-LD block \<^verbatim>\<open>{"@type":"Product","name":"Widget","offers":{"price":"9.99"}}\<close>.\<close>

definition widget_block :: ld_dict where
  "widget_block =
     \<lparr>ld_type = Some ''Product'', ld_name = Some ''Widget'', ld_description = None,
      ld_offers = OffersDict (Some ''9.99'')\<rparr>"


text \<open>A page with the Widget block; every selector matches a container on it.\<close>

definition widget_page :: page where
  "widget_page = \<lparr>json_scripts = [Dict widget_block], soup_select = (\<lambda>selector. [priced_element])\<rparr>"

text \<open>The same page with an empty JSON-LD script block before the Widget block.\<close>

definition blank_block_page :: page where
  "blank_block_page =
     \<lparr>json_scripts = [NoString, Dict widget_block], soup_select = (\<lambda>selector. [priced_element])\<rparr>"



text \<open>A page whose first selector matches only a container without title and whose second selector matches a container that yields a record.\<close>

definition stale_page :: page where
  \<open>stale_page =
     \<lparr>json_scripts = [],
      soup_select = (\<lambda>selector.
        if selector = ''[class*="product"]'' then [no_title_element]
        else if selector = ''[class*="item"]'' then [priced_element]
        else [])\<rparr>\<close>





text \<open>A record whose text has two percentages.\<close>

definition two_percent_record :: product where
  "two_percent_record =
     empty_product\<lparr>title := Some ''Kaas 10% extra'', description := Val ''Nu 25% korting'',
       price := Some (499 / 100)\<rparr>"


section \<open>Properties\<close>

subsection \<open>The price parser\<close>

lemma match_price_None: "match_price s = None \<longleftrightarrow> (\<forall>c cs. s = c # cs \<longrightarrow> \<not> is_digit c)"
  by (cases s) (auto simp: match_price_def Let_def split: list.splits)

lemma dropWhile_Cons_ex: "dropWhile P xs = y # ys \<Longrightarrow> \<exists>x\<in>set xs. \<not> P x"
  by (metis dropWhile_eq_Nil_conv list.distinct(1))

lemma match_price_first_token:
  "is_digit c \<Longrightarrow> match_price (c # cs) = Some (first_token (c # cs))"
  unfolding match_price_def first_token_def Let_def
  by (auto split: list.split dest: dropWhile_Cons_ex)

lemma first_token_dropWhile:
  "first_token (dropWhile (\<lambda>c. \<not> is_digit c) s) = first_token s"
  by (simp add: first_token_def)

lemma search_price_first_token:
  "search_price s = (if list_ex is_digit s then Some (first_token s) else None)"
proof (induction s)
  case Nil
  then show ?case by simp
next
  case (Cons c cs)
  show ?case
  proof (cases "is_digit c")
    case True
    then show ?thesis using match_price_first_token [of c cs] by simp
  next
    case False
    then have "match_price (c # cs) = None" by (simp add: match_price_None)
    moreover have "first_token (c # cs) = first_token cs"
      using False by (simp add: first_token_def)
    ultimately show ?thesis using Cons False by simp
  qed
qed

lemma replace_char:
  "replace [a] new s = concat (map (\<lambda>x. if x = a then new else [x]) s)"
  by (induction s) auto

lemma replace_no_comma: "CHR '','' \<notin> set (replace '','' ''.'' s)"
  by (auto simp: replace_char)

lemma replace_comma_digits: "list_ex is_digit (replace '','' ''.'' s) = list_ex is_digit s"
  by (induction s) (auto simp: is_digit_def)

lemma replace_euro_digits: "list_ex is_digit (replace euro [] s) = list_ex is_digit s"
proof (induction euro "[]::string" s rule: replace.induct)
  case 1
  then show ?case by simp
next
  case (2 c cs)
  show ?case
  proof (cases "take (length euro) (c # cs) = euro")
    case True
    have e: "euro \<noteq> []" by (simp add: euro_def)
    have "c # cs = euro @ drop (length euro) (c # cs)"
      using True append_take_drop_id [of "length euro" "c # cs"] by simp
    moreover have "list_ex is_digit (euro @ drop (length euro) (c # cs)) =
        list_ex is_digit (drop (length euro) (c # cs))"
      by (simp add: euro_def is_digit_def)
    ultimately have "list_ex is_digit (c # cs) = list_ex is_digit (drop (length euro) (c # cs))"
      by simp
    then show ?thesis using 2 True e by simp
  next
    case False
    then show ?thesis using 2 by simp
  qed
qed


lemma takeWhile_all: "list_all P xs \<Longrightarrow> takeWhile P xs = xs"
  by (induction xs) auto

lemma dropWhile_all: "list_all P xs \<Longrightarrow> dropWhile P xs = []"
  by (induction xs) auto

lemma takeWhile_digits_append:
  "list_all P ds \<Longrightarrow> \<not> P c \<Longrightarrow> takeWhile P (ds @ c # r) = ds"
  by (induction ds) auto

lemma dropWhile_digits_append:
  "list_all P ds \<Longrightarrow> \<not> P c \<Longrightarrow> dropWhile P (ds @ c # r) = c # r"
  by (induction ds) auto

lemma list_all_takeWhile: "list_all P (takeWhile P xs)"
  by (induction xs) auto

lemma point_no_digit: "\<not> is_digit CHR ''.''"
  by (simp add: is_digit_def)

lemma py_float_digits:
  "ip \<noteq> [] \<Longrightarrow> list_all is_digit ip \<Longrightarrow> py_float ip = Some (decimal_value ip)"
  by (simp add: py_float_def decimal_value_def takeWhile_all dropWhile_all nat_of_digits_def)

lemma py_float_point:
  "ip \<noteq> [] \<Longrightarrow> list_all is_digit ip \<Longrightarrow> list_all is_digit fp \<Longrightarrow>
   py_float (ip @ CHR ''.'' # fp) = Some (decimal_value (ip @ CHR ''.'' # fp))"
  by (simp add: py_float_def decimal_value_def takeWhile_digits_append dropWhile_digits_append
      point_no_digit)

lemma first_token_cases:
  assumes "list_ex is_digit s"
  obtains ip where "ip \<noteq> []" "list_all is_digit ip" "first_token s = ip"
  | ip c fp where "ip \<noteq> []" "list_all is_digit ip" "list_all is_digit fp"
      "c = CHR '','' \<or> c = CHR ''.''" "c \<in> set s" "first_token s = ip @ c # fp"
proof -
  define d where "d = dropWhile (\<lambda>c. \<not> is_digit c) s"
  define ip where "ip = takeWhile is_digit d"
  define r where "r = dropWhile is_digit d"
  from assms have "d \<noteq> []" unfolding d_def by (simp add: list_ex_iff)
  then have "is_digit (hd d)" unfolding d_def using hd_dropWhile [of "\<lambda>c. \<not> is_digit c" s] by simp
  with \<open>d \<noteq> []\<close> have ip: "ip \<noteq> []" unfolding ip_def by (cases d) auto
  have ipd: "list_all is_digit ip" unfolding ip_def by (rule list_all_takeWhile)
  have sub: "set r \<subseteq> set s" unfolding r_def d_def
    by (meson set_dropWhileD subsetI)
  show thesis
  proof (cases r)
    case Nil
    then have "first_token s = ip"
      by (simp add: first_token_def Let_def d_def [symmetric] ip_def [symmetric] r_def [symmetric])
    then show thesis by (rule that(1) [OF ip ipd])
  next
    case (Cons c r')
    show thesis
    proof (cases "c = CHR '','' \<or> c = CHR ''.''")
      case True
      then have ft: "first_token s = ip @ c # takeWhile is_digit r'"
        using Cons
        by (simp add: first_token_def Let_def d_def [symmetric] ip_def [symmetric] r_def [symmetric])
      have cs: "c \<in> set s" using sub Cons by auto
      show thesis by (rule that(2) [OF ip ipd list_all_takeWhile True cs ft])
    next
      case False
      then have "first_token s = ip"
        using Cons
        by (simp add: first_token_def Let_def d_def [symmetric] ip_def [symmetric] r_def [symmetric])
      then show thesis by (rule that(1) [OF ip ipd])
    qed
  qed
qed

lemma py_float_first_token:
  assumes "list_ex is_digit s" and "CHR '','' \<notin> set s"
  shows "py_float (first_token s) = Some (decimal_value (first_token s))"
  using assms(1)
proof (cases rule: first_token_cases)
  case (1 ip)
  then show ?thesis by (simp add: py_float_digits)
next
  case (2 ip c fp)
  with assms(2) have "c = CHR ''.''" by auto
  with 2 show ?thesis by (simp add: py_float_point)
qed

lemma extract_price_eq:
  "extract_price t =
     Inr (if list_ex is_digit t
          then Some (decimal_value (first_token (replace '','' ''.'' (replace euro [] t))))
          else None)"
proof -
  define s where "s = replace '','' ''.'' (replace euro [] t)"
  have d: "list_ex is_digit s = list_ex is_digit t"
    unfolding s_def by (simp add: replace_comma_digits replace_euro_digits)
  have c: "CHR '','' \<notin> set s" unfolding s_def by (rule replace_no_comma)
  show ?thesis
  proof (cases "list_ex is_digit t")
    case True
    then have "t \<noteq> []" by auto
    moreover have "py_float (first_token s) = Some (decimal_value (first_token s))"
      using True d c by (simp add: py_float_first_token)
    ultimately show ?thesis
      using True d by (simp add: extract_price_def search_price_first_token s_def [symmetric])
  next
    case False
    then show ?thesis
      using d by (simp add: extract_price_def search_price_first_token s_def [symmetric])
  qed
qed



subsection \<open>What a container yields\<close>

lemma decimal_value_nonneg: "0 \<le> decimal_value tok"
  by (simp add: decimal_value_def Let_def)

lemma extract_price_Inr:
  "\<exists>v. extract_price t = Inr v \<and> (case v of None \<Rightarrow> True | Some r \<Rightarrow> 0 \<le> r)"
  by (simp add: extract_price_eq decimal_value_nonneg)



lemma Min_pos: "\<forall>r\<in>set (p # ps). 0 < (r::rat) \<Longrightarrow> 0 < Min (set (p # ps))"
  by (simp del: set_simps)





















subsection \<open>Aggregation\<close>







subsection \<open>Fetching\<close>



lemma get_page_loop_success:
  "a \<le> k \<Longrightarrow> k < retries \<Longrightarrow> \<forall>j. a \<le> j \<and> j < k \<longrightarrow> net j = RequestException \<Longrightarrow>
   net k = Response pg \<Longrightarrow>
   get_page_loop net retries [a..<retries] calls = (Some pg, Suc (calls + (k - a)))"
proof (induction "k - a" arbitrary: a calls)
  case 0
  then have "a = k" by simp
  with 0 show ?case by (simp add: upt_conv_Cons)
next
  case (Suc n)
  then have lt: "a < k" by simp
  with Suc.prems have f: "net a = RequestException" by simp
  have ih: "get_page_loop net retries [Suc a..<retries] (Suc calls) =
      (Some pg, Suc (Suc calls + (k - Suc a)))"
    using Suc lt by (intro Suc.hyps(1)) auto
  have a: "a < retries" "a < retries - 1" using lt Suc.prems(2) by simp_all
  have "[a..<retries] = a # [Suc a..<retries]" using a(1) by (rule upt_conv_Cons)
  then have "get_page_loop net retries [a..<retries] calls =
      get_page_loop net retries [Suc a..<retries] (Suc calls)"
    using f a(2) by simp
  moreover have "Suc (Suc calls + (k - Suc a)) = Suc (calls + (k - a))" using lt by simp
  ultimately show ?case using ih by simp
qed

lemma get_page_success:
  "k < retries \<Longrightarrow> \<forall>j<k. net j = RequestException \<Longrightarrow> net k = Response pg \<Longrightarrow>
   get_page net retries = (Some pg, Suc k)"
  using get_page_loop_success [of 0 k retries net pg 0] by (simp add: get_page_def)







subsection \<open>The selector cascade\<close>

lemma selector_cascade_eq:
  "selector_cascade soup selectors [] tried =
     (case find (\<lambda>s. selector_records soup s \<noteq> []) selectors of
        None \<Rightarrow> ([], tried @ selectors)
      | Some s \<Rightarrow>
          (selector_records soup s,
           tried @ takeWhile (\<lambda>s. selector_records soup s = []) selectors @ [s]))"
proof (induction selectors arbitrary: tried)
  case Nil
  then show ?case by simp
next
  case (Cons selector selectors)
  show ?case
  proof (cases "soup_select soup selector = []")
    case True
    then have "selector_records soup selector = []" by (simp add: selector_records_def)
    with True show ?thesis by (simp add: Cons split: option.split)
  next
    case False
    then show ?thesis
      by (cases "selector_records soup selector = []")
        (simp_all add: Cons Let_def selector_records_def [symmetric] split: option.split)
  qed
qed

text \<open>
  C1, as the code has it. The cascade takes the selectors in order and stops at the first
  one whose first ten matched elements yield at least one record; it returns the records
  of that selector alone, and hands to \<open>soup.select\<close> that selector and every one before
  it, no later one. A selector that matches elements none of which yields a record does
  not stop the cascade. When no selector yields a record, all are tried and the result is
  empty.
\<close>

theorem cascade_stops_at_first_productive_selector:
  "selector_cascade soup selectors [] [] =
     (case find (\<lambda>s. selector_records soup s \<noteq> []) selectors of
        None \<Rightarrow> ([], selectors)
      | Some s \<Rightarrow>
          (selector_records soup s,
           takeWhile (\<lambda>s. selector_records soup s = []) selectors @ [s])) \<and>
   (fst (get_page net 3) = Some soup \<longrightarrow> scan_json_ld url (json_scripts soup) [] = Inr [] \<longrightarrow>
      scrape_products_page net url = Inr (selector_cascade soup product_selectors [] []))"
  by (simp add: selector_cascade_eq scrape_products_page_def split: option.split)

theorem cascade_stops_at_first_productive_selector_witness:
  \<open>selector_cascade stale_page product_selectors [] [] =
     ([empty_product\<lparr>title := Some ''Halfvolle melk'', price := Some (119 / 100)\<rparr>],
      [''[class*="product"]'', ''[class*="item"]'']) \<and>
   scrape_products_page (\<lambda>k. Response stale_page) ''https://crisp.nl/'' =
     Inr (selector_cascade stale_page product_selectors [] [])\<close>
proof -
  have a: "fst (get_page (\<lambda>k. Response stale_page) 3) = Some stale_page"
    using get_page_success [of 0 3 "\<lambda>k. Response stale_page" stale_page] by simp
  have b: "scan_json_ld ''https://crisp.nl/'' (json_scripts stale_page) [] = Inr []"
    by (simp add: stale_page_def)
  have c: \<open>(case find (\<lambda>s. selector_records stale_page s \<noteq> []) product_selectors of
        None \<Rightarrow> ([], product_selectors)
      | Some s \<Rightarrow>
          (selector_records stale_page s,
           takeWhile (\<lambda>s. selector_records stale_page s = []) product_selectors @ [s])) =
     ([empty_product\<lparr>title := Some ''Halfvolle melk'', price := Some (119 / 100)\<rparr>],
      [''[class*="product"]'', ''[class*="item"]''])\<close>
    by code_simp
  show ?thesis
    using cascade_stops_at_first_productive_selector [where soup = stale_page
        and selectors = product_selectors and net = "\<lambda>k. Response stale_page"
        and url = "''https://crisp.nl/''"] a b c
    by simp
qed

theorem cascade_first_match_counterexample:
  \<open>soup_select stale_page ''[class*="product"]'' = [no_title_element] \<and>
   scrape_products_page (\<lambda>k. Response stale_page) ''https://crisp.nl/'' =
     Inr ([empty_product\<lparr>title := Some ''Halfvolle melk'', price := Some (119 / 100)\<rparr>],
          [''[class*="product"]'', ''[class*="item"]''])\<close>
proof (intro conjI)
  show \<open>soup_select stale_page ''[class*="product"]'' = [no_title_element]\<close>
    by (simp add: stale_page_def)
  show \<open>scrape_products_page (\<lambda>k. Response stale_page) ''https://crisp.nl/'' =
     Inr ([empty_product\<lparr>title := Some ''Halfvolle melk'', price := Some (119 / 100)\<rparr>],
          [''[class*="product"]'', ''[class*="item"]''])\<close>
    by code_simp
qed

subsection \<open>Structured data\<close>

lemma json_ld_record_Inr: "\<exists>r. json_ld_record url d s = Inr r"
proof -
  obtain v where "extract_price s = Inr v" using extract_price_Inr [of s] by blast
  then show ?thesis by (simp add: json_ld_record_def Let_def)
qed

lemma json_ld_product_Inr: "\<exists>r. json_ld_product url d = Inr r"
  by (simp add: json_ld_product_def json_ld_record_Inr split: offers.split option.split)

lemma scan_json_ld_NoString:
  "NoString \<in> set scripts \<Longrightarrow> scan_json_ld url scripts products = Inl TypeError"
proof (induction scripts arbitrary: products)
  case Nil
  then show ?case by simp
next
  case (Cons script scripts)
  show ?case
  proof (cases script)
    case (Dict data)
    obtain r where "json_ld_product url data = Inr r" using json_ld_product_Inr by blast
    with Dict Cons show ?thesis by (cases r) auto
  qed (use Cons in auto)
qed

lemma scan_json_ld_skips:
  "scan_json_ld url scripts products =
   scan_json_ld url (filter (\<lambda>s. s \<noteq> Invalid \<and> s \<noteq> NonDict) scripts) products"
  by (induction scripts arbitrary: products) (auto split: ld_script.splits sum.splits option.splits)

lemma extract_price_widget: "extract_price ''9.99'' = Inr (Some (999 / 100))"
  by code_simp

lemma ld_type_widget: "ld_type widget_block = Some ''Product''"
  by (simp add: widget_block_def)

lemma json_ld_product_widget:
  "json_ld_product url widget_block =
     Inr (Some (empty_product\<lparr>title := Some ''Widget'', description := Null,
       price := Some (999 / 100), link := Some url, source := Some ''json-ld''\<rparr>))"
  by (simp add: json_ld_product_def json_ld_record_def widget_block_def extract_price_widget
      truthy_str_def truthy_num_def empty_product_def)

text \<open>
  C5, as the code has it. For every page that is fetched and whose one JSON-LD block
  declares the Product named Widget with the offer price \<^verbatim>\<open>"9.99"\<close>, the page yields
  exactly one record: title Widget, price 9.99, the page address as link, a description
  key holding None, and the source tag \<^verbatim>\<open>json-ld\<close>. No selector is tried.
\<close>

theorem json_ld_widget_record:
  assumes "fst (get_page net 3) = Some soup" and "json_scripts soup = [Dict widget_block]"
  shows "scrape_products_page net url =
     Inr ([empty_product\<lparr>title := Some ''Widget'', description := Null,
             price := Some (999 / 100), link := Some url, source := Some ''json-ld''\<rparr>], [])"
  using assms
  by (simp add: scrape_products_page_def json_ld_product_widget ld_type_widget)

theorem json_ld_widget_record_witness:
  "scrape_products_page (\<lambda>k. Response widget_page) ''https://crisp.nl/'' =
     Inr ([empty_product\<lparr>title := Some ''Widget'', description := Null,
             price := Some (999 / 100), link := Some ''https://crisp.nl/'',
             source := Some ''json-ld''\<rparr>], [])"
proof -
  have a: "fst (get_page (\<lambda>k. Response widget_page) 3) = Some widget_page"
    using get_page_success [of 0 3 "\<lambda>k. Response widget_page" widget_page] by simp
  have b: "json_scripts widget_page = [Dict widget_block]" by (simp add: widget_page_def)
  show ?thesis by (rule json_ld_widget_record [OF a b])
qed

theorem json_ld_source_tag_counterexample:
  "scrape_products_page (\<lambda>k. Response widget_page) ''https://crisp.nl/'' =
     Inr ([empty_product\<lparr>title := Some ''Widget'', description := Null,
             price := Some (999 / 100), link := Some ''https://crisp.nl/'',
             source := Some ''json-ld''\<rparr>], []) \<and>
   source (empty_product\<lparr>title := Some ''Widget'', description := Null,
             price := Some (999 / 100), link := Some ''https://crisp.nl/'',
             source := Some ''json-ld''\<rparr>) \<noteq> Some ''structured-data''"
proof (intro conjI)
  show "scrape_products_page (\<lambda>k. Response widget_page) ''https://crisp.nl/'' =
     Inr ([empty_product\<lparr>title := Some ''Widget'', description := Null,
             price := Some (999 / 100), link := Some ''https://crisp.nl/'',
             source := Some ''json-ld''\<rparr>], [])"
    by code_simp
  show "source (empty_product\<lparr>title := Some ''Widget'', description := Null,
             price := Some (999 / 100), link := Some ''https://crisp.nl/'',
             source := Some ''json-ld''\<rparr>) \<noteq> Some ''structured-data''"
    by simp
qed

text \<open>
  C9, at the failing input. A page whose first JSON-LD script block is empty, so that
  \<open>script.string\<close> is None, followed by a well-formed Product block: \<open>json.loads\<close> raises
  TypeError, which line 175 does not catch. The page yields no record at all, and the
  exception ends the run over the addresses as well.
\<close>

theorem empty_json_ld_block_aborts_page:
  "scrape_products_page (\<lambda>k. Response blank_block_page) ''https://crisp.nl/'' = Inl TypeError \<and>
   scrape_all_products (\<lambda>url k. Response blank_block_page)
     [''https://crisp.nl/'', ''https://crisp.nl/onze-producten''] = Inl TypeError"
  by code_simp

subsection \<open>The sale classifier\<close>

lemma percent_no_digit: "\<not> is_digit CHR ''%''"
  by (simp add: is_digit_def)

lemma find_none: "(\<And>x. x \<in> set xs \<Longrightarrow> \<not> P x) \<Longrightarrow> find P xs = None"
  by (induction xs) auto

lemma takeWhile_nth: "k < length (takeWhile P xs) \<Longrightarrow> P (xs ! k)"
  by (metis nth_mem set_takeWhileD takeWhile_nth)

lemma dropWhile_nth_length:
  "length (takeWhile P xs) < length xs \<Longrightarrow> xs ! length (takeWhile P xs) = hd (dropWhile P xs)"
  by (metis hd_dropWhile dropWhile_eq_drop hd_drop_conv_nth)

lemma match_discount_eq:
  "match_discount s =
     (if takeWhile is_digit s \<noteq> [] \<and> (\<exists>r. dropWhile is_digit s = CHR ''%'' # r)
      then Some (takeWhile is_digit s) else None)"
proof -
  define n where "n = length (takeWhile is_digit s)"
  define P where "P = (\<lambda>k. k < length s \<and> s ! k = CHR ''%'')"
  have below: "\<not> P k" if "k < n" for k
    using that takeWhile_nth [of k is_digit s] percent_no_digit by (auto simp: n_def P_def)
  have at: "P n \<longleftrightarrow> (\<exists>r. dropWhile is_digit s = CHR ''%'' # r)"
  proof (cases "n < length s")
    case True
    then have "dropWhile is_digit s \<noteq> []"
      unfolding n_def by (metis length_takeWhile_le takeWhile_dropWhile_id append_Nil2 less_irrefl)
    moreover have "s ! n = hd (dropWhile is_digit s)"
      using True unfolding n_def by (rule dropWhile_nth_length)
    ultimately show ?thesis using True by (cases "dropWhile is_digit s") (auto simp: P_def)
  next
    case False
    then have "length (takeWhile is_digit s) = length s"
      unfolding n_def using length_takeWhile_le [of is_digit s] by simp
    then have "dropWhile is_digit s = []"
      by (metis append_eq_conv_conj drop_all order_refl takeWhile_dropWhile_id)
    then have "\<not> (\<exists>r. dropWhile is_digit s = CHR ''%'' # r)" by (simp del: dropWhile_eq_Nil_conv)
    with False show ?thesis by (simp add: P_def del: dropWhile_eq_Nil_conv)
  qed
  have t: "take n s = takeWhile is_digit s"
    unfolding n_def by (metis append_eq_conv_conj takeWhile_dropWhile_id)
  show ?thesis
  proof (cases n)
    case 0
    then have "takeWhile is_digit s = []" by (simp add: n_def)
    with 0 show ?thesis by (simp add: match_discount_def n_def [symmetric])
  next
    case (Suc m)
    then have ne: "takeWhile is_digit s \<noteq> []" by (auto simp: n_def)
    have l: "rev [1..<Suc n] = n # rev [1..<n]" using Suc by simp
    have rest: "find P (rev [1..<n]) = None" by (rule find_none) (auto dest: below)
    show ?thesis
      unfolding match_discount_def n_def [symmetric] P_def [symmetric] l
      using at rest t ne by simp
  qed
qed

lemma match_discount_run:
  "list_all is_digit run \<Longrightarrow> \<not> is_digit c \<Longrightarrow>
   match_discount (run @ c # cs) = (if run \<noteq> [] \<and> c = CHR ''%'' then Some run else None)"
  by (auto simp: match_discount_eq takeWhile_digits_append dropWhile_digits_append
      percent_no_digit)

lemma match_discount_digits: "list_all is_digit run \<Longrightarrow> match_discount run = None"
  by (simp add: match_discount_eq dropWhile_all)

lemma search_discount_digits: "list_all is_digit run \<Longrightarrow> search_discount run = None"
  by (induction run) (simp_all add: match_discount_digits)

lemma search_discount_run:
  "list_all is_digit run \<Longrightarrow> \<not> is_digit c \<Longrightarrow> c \<noteq> CHR ''%'' \<or> run = [] \<Longrightarrow>
   search_discount (run @ c # cs) = search_discount cs"
proof (induction run)
  case Nil
  then show ?case using match_discount_run [of "[]" c cs] by simp
next
  case (Cons d run)
  then have "match_discount ((d # run) @ c # cs) = None"
    using match_discount_run [of "d # run" c cs] by simp
  with Cons show ?case by simp
qed

lemma search_discount_scan:
  "list_all is_digit run \<Longrightarrow> search_discount (run @ s) = scan_percent run s"
proof (induction s arbitrary: run)
  case Nil
  then show ?case by (simp add: search_discount_digits)
next
  case (Cons c cs)
  show ?case
  proof (cases "is_digit c")
    case True
    with Cons.prems have "list_all is_digit (run @ [c])" by simp
    then have "search_discount ((run @ [c]) @ cs) = scan_percent (run @ [c]) cs"
      by (rule Cons.IH)
    with True show ?thesis by simp
  next
    case False
    show ?thesis
    proof (cases "c = CHR ''%'' \<and> run \<noteq> []")
      case True
      then obtain d run' where r: "run = d # run'" by (cases run) auto
      have "match_discount (run @ c # cs) = Some run"
        using match_discount_run [OF Cons.prems False, of cs] True by simp
      with r True False show ?thesis by simp
    next
      case no: False
      then have "search_discount (run @ c # cs) = search_discount cs"
        using Cons.prems False by (intro search_discount_run) auto
      moreover have "search_discount ([] @ cs) = scan_percent [] cs"
        by (rule Cons.IH) simp
      ultimately show ?thesis using False no by auto
    qed
  qed
qed


lemma text_lower_eq: "description p \<noteq> Null \<Longrightarrow> text_lower p = Inr (combined_text p)"
  by (cases "description p") (simp_all add: text_lower_def combined_text_def)

lemma is_on_sale_eq:
  assumes "description p \<noteq> Null"
  shows "is_on_sale p =
     Inr (case first_percentage (combined_text p) of
            Some n \<Rightarrow> (True, p\<lparr>discount_percentage := Some n\<rparr>)
          | None \<Rightarrow>
              if list_ex (\<lambda>keyword. contains keyword (combined_text p)) sale_keywords
              then (True, p)
              else if truthy_num (original_price p) \<and> truthy_num (sale_price p) then (True, p)
              else (False, p))"
proof -
  have "search_discount (combined_text p) = scan_percent [] (combined_text p)"
    using search_discount_scan [of "[]" "combined_text p"] by simp
  then show ?thesis
    by (simp add: is_on_sale_def text_lower_eq [OF assms] first_percentage_def
        split: option.split)
qed





subsection \<open>Selecting the sale products\<close>

lemma is_on_sale_Null: "description p = Null \<Longrightarrow> is_on_sale p = Inl TypeError"
  by (simp add: is_on_sale_def text_lower_def)

lemma is_on_sale_verdict: "description p \<noteq> Null \<Longrightarrow> is_on_sale p = Inr (verdict p)"
  by (simp add: verdict_def is_on_sale_eq)


lemma classify_Null:
  "\<exists>p\<in>set ps. description p = Null \<Longrightarrow> classify ps sale_products = Inl TypeError"
proof (induction ps arbitrary: sale_products)
  case Nil
  then show ?case by simp
next
  case (Cons p ps)
  show ?case
  proof (cases "description p = Null")
    case True
    then show ?thesis by (simp add: is_on_sale_Null)
  next
    case False
    then have "is_on_sale p = Inr (verdict p)" by (rule is_on_sale_verdict)
    moreover from False Cons.prems have "\<exists>q\<in>set ps. description q = Null" by auto
    ultimately show ?thesis using Cons.IH by (cases "verdict p") simp
  qed
qed

lemma sale_key_le:
  "sale_key x \<le> sale_key y \<longleftrightarrow>
     (case discount_percentage y of None \<Rightarrow> 0 | Some d \<Rightarrow> d) <
       (case discount_percentage x of None \<Rightarrow> 0 | Some d \<Rightarrow> d) \<or>
     (case discount_percentage y of None \<Rightarrow> 0 | Some d \<Rightarrow> d) =
       (case discount_percentage x of None \<Rightarrow> 0 | Some d \<Rightarrow> d) \<and>
     snd (sale_key x) \<le> snd (sale_key y)"
  by (auto simp: sale_key_def less_eq_prod_def)


text \<open>
  The record of a JSON-LD block without description holds None under its description key
  (line 168). On it \<open>is_on_sale\<close> raises TypeError at line 63, and so does the selection
  of the sale products from an aggregate that holds such a record.
\<close>

lemma sale_selection_fails_on_json_ld_record:
  "scrape_all_products (\<lambda>url k. Response widget_page) [''https://crisp.nl/''] =
     Inr [empty_product\<lparr>title := Some ''Widget'', description := Null,
            price := Some (999 / 100), link := Some ''https://crisp.nl/'',
            source := Some ''json-ld''\<rparr>] \<and>
   find_sale_products (\<lambda>url k. Response widget_page) [''https://crisp.nl/''] [] =
     Inl TypeError \<and>
   find_sale_products (\<lambda>url k. Response widget_page) [''https://crisp.nl/'']
     [two_percent_record,
      empty_product\<lparr>title := Some ''Widget'', description := Null,
        price := Some (999 / 100), link := Some ''https://crisp.nl/'',
        source := Some ''json-ld''\<rparr>] = Inl TypeError"
  by code_simp





end
